theory Spec2Isabelle
  imports Complex_Main
begin

section \<open>Python values used by the classification service\<close>

text \<open>
  A Python \<open>float\<close> is a finite binary64 number, one of the two infinities, or nan.
  Every finite binary64 number is a rational, so the finite floats are embedded in
  \<open>rat\<close>; the comparisons below are the IEEE comparisons Python performs: exact on
  finite values, and false whenever an operand is nan.  An \<open>int\<close> literal of the source
  (\<open>600\<close>, \<open>21\<close>, ...) compared with a float is compared by value, which is the
  comparison with the rational of the same value.
\<close>

datatype pyfloat = Fin rat | PInf | NInf | NaN

fun flt :: "pyfloat \<Rightarrow> pyfloat \<Rightarrow> bool" where
  "flt (Fin a) (Fin b) = (a < b)"
| "flt (Fin a) PInf = True"
| "flt NInf (Fin b) = True"
| "flt NInf PInf = True"
| "flt a b = False"

fun fle :: "pyfloat \<Rightarrow> pyfloat \<Rightarrow> bool" where
  "fle (Fin a) (Fin b) = (a \<le> b)"
| "fle (Fin a) PInf = True"
| "fle NInf (Fin b) = True"
| "fle NInf PInf = True"
| "fle NInf NInf = True"
| "fle PInf PInf = True"
| "fle a b = False"

definition fgt :: "pyfloat \<Rightarrow> pyfloat \<Rightarrow> bool" where
  "fgt a b = flt b a"

text \<open>\<open>d.get(k, default)\<close> on a dictionary.\<close>

definition dict_get :: "('k \<rightharpoonup> 'v) \<Rightarrow> 'k \<Rightarrow> 'v \<Rightarrow> 'v" where
  "dict_get d k dflt = (case d k of None \<Rightarrow> dflt | Some v \<Rightarrow> v)"

section \<open>The threshold classifier: \<open>simple_classification\<close>\<close>

text \<open>
  The local variables of \<open>simple_classification\<close> (lines 38 to 41 of \<open>app.py\<close>) and the
  dictionary it returns (lines 85 to 93), which holds the locals and three more keys.
\<close>

record locals =
  classification :: int
  reasons :: "string list"
  not_suitable_count :: int
  less_suitable_count :: int

record result = locals +
  classification_label :: string
  confidence :: "pyfloat option"
  "method" :: string

text \<open>
  The f-strings of the reasons format a float with Python's \<open>str\<close>; the formatter is the
  parameter \<open>fstr\<close> of the model.  Characters are code points below 256, so the degree
  sign of the temperature messages is the single character \<open>0xB0\<close>.
\<close>

definition cek_ph :: "(pyfloat \<Rightarrow> string) \<Rightarrow> pyfloat \<Rightarrow> locals \<Rightarrow> locals" where
  "cek_ph fstr ph s =
     (if flt ph (Fin 6) \<or> fgt ph (Fin (17 / 2)) then
        s\<lparr>not_suitable_count := not_suitable_count s + 1,
          reasons := reasons s @ [''pH tidak layak ('' @ fstr ph @ '') - Range layak: 6.5-7.8'']\<rparr>
      else if (fle (Fin 6) ph \<and> flt ph (Fin (13 / 2))) \<or> (flt (Fin (78 / 10)) ph \<and> fle ph (Fin (17 / 2))) then
        s\<lparr>less_suitable_count := less_suitable_count s + 1,
          reasons := reasons s @ [''pH kurang layak ('' @ fstr ph @ '') - Range layak: 6.5-7.8'']\<rparr>
      else s)"

definition cek_tds :: "(pyfloat \<Rightarrow> string) \<Rightarrow> pyfloat \<Rightarrow> locals \<Rightarrow> locals" where
  "cek_tds fstr tds s =
     (if fgt tds (Fin 600) then
        s\<lparr>not_suitable_count := not_suitable_count s + 1,
          reasons := reasons s @ [''TDS tidak layak ('' @ fstr tds @ '' mg/L) - Range layak: 50-400 mg/L'']\<rparr>
      else if flt tds (Fin 50) \<or> (flt (Fin 400) tds \<and> fle tds (Fin 600)) then
        s\<lparr>less_suitable_count := less_suitable_count s + 1,
          reasons := reasons s @ [''TDS kurang layak ('' @ fstr tds @ '' mg/L) - Range layak: 50-400 mg/L'']\<rparr>
      else s)"

definition cek_suhu :: "(pyfloat \<Rightarrow> string) \<Rightarrow> pyfloat \<Rightarrow> locals \<Rightarrow> locals" where
  "cek_suhu fstr suhu s =
     (if flt suhu (Fin 21) \<or> fgt suhu (Fin 27) then
        s\<lparr>not_suitable_count := not_suitable_count s + 1,
          reasons := reasons s @
            [''Suhu tidak layak ('' @ fstr suhu @ [CHR 0xB0] @ ''C) - Range layak: 23-25'' @ [CHR 0xB0] @ ''C'']\<rparr>
      else if (fle (Fin 21) suhu \<and> flt suhu (Fin 23)) \<or> (flt (Fin 25) suhu \<and> fle suhu (Fin 27)) then
        s\<lparr>less_suitable_count := less_suitable_count s + 1,
          reasons := reasons s @
            [''Suhu kurang layak ('' @ fstr suhu @ [CHR 0xB0] @ ''C) - Range layak: 23-25'' @ [CHR 0xB0] @ ''C'']\<rparr>
      else s)"

definition cek_do :: "(pyfloat \<Rightarrow> string) \<Rightarrow> pyfloat \<Rightarrow> locals \<Rightarrow> locals" where
  "cek_do fstr do s =
     (if flt do (Fin (5 / 2)) \<or> fgt do (Fin 7) then
        s\<lparr>not_suitable_count := not_suitable_count s + 1,
          reasons := reasons s @ [''DO tidak layak ('' @ fstr do @ '' mg/L) - Range layak: 4-6 mg/L'']\<rparr>
      else if (fle (Fin (5 / 2)) do \<and> flt do (Fin 4)) \<or> (flt (Fin 6) do \<and> fle do (Fin 7)) then
        s\<lparr>less_suitable_count := less_suitable_count s + 1,
          reasons := reasons s @ [''DO kurang layak ('' @ fstr do @ '' mg/L) - Range layak: 4-6 mg/L'']\<rparr>
      else s)"

text \<open>Lines 76 to 81: the overall label from the two counts.\<close>

definition tentukan_klasifikasi :: "locals \<Rightarrow> locals" where
  "tentukan_klasifikasi s =
     (if not_suitable_count s > 0 then s\<lparr>classification := 2\<rparr>
      else if less_suitable_count s > 0 then s\<lparr>classification := 0\<rparr>
      else s\<lparr>classification := 1\<rparr>)"

definition label_names :: "int \<rightharpoonup> string" where
  "label_names = [0 \<mapsto> ''Kurang Layak'', 1 \<mapsto> ''Layak'', 2 \<mapsto> ''Tidak Layak'']"

definition simple_classification ::
    "(pyfloat \<Rightarrow> string) \<Rightarrow> pyfloat \<Rightarrow> pyfloat \<Rightarrow> pyfloat \<Rightarrow> pyfloat \<Rightarrow> result" where
  "simple_classification fstr ph tds suhu do =
     (let s0 = \<lparr>classification = 1, reasons = [], not_suitable_count = 0, less_suitable_count = 0\<rparr>;
          s1 = cek_ph fstr ph s0;
          s2 = cek_tds fstr tds s1;
          s3 = cek_suhu fstr suhu s2;
          s4 = cek_do fstr do s3;
          s5 = tentukan_klasifikasi s4
      in \<lparr>classification = classification s5,
          reasons = reasons s5,
          not_suitable_count = not_suitable_count s5,
          less_suitable_count = less_suitable_count s5,
          classification_label = dict_get label_names (classification s5) ''Unknown'',
          confidence = None,
          method = ''simple_threshold''\<rparr>)"

text \<open>
  Which branch a check takes is the parameter's verdict: the first branch of each
  \<open>if\<close>/\<open>elif\<close> of lines 44 to 73 is the bad zone, the second the marginal band, and
  falling through both is the good window.
\<close>

datatype verdict = Suitable | MarginallySuitable | NotSuitable

definition verdict_ph :: "pyfloat \<Rightarrow> verdict" where
  "verdict_ph ph =
     (if flt ph (Fin 6) \<or> fgt ph (Fin (17 / 2)) then NotSuitable
      else if (fle (Fin 6) ph \<and> flt ph (Fin (13 / 2))) \<or> (flt (Fin (78 / 10)) ph \<and> fle ph (Fin (17 / 2)))
      then MarginallySuitable
      else Suitable)"

definition verdict_tds :: "pyfloat \<Rightarrow> verdict" where
  "verdict_tds tds =
     (if fgt tds (Fin 600) then NotSuitable
      else if flt tds (Fin 50) \<or> (flt (Fin 400) tds \<and> fle tds (Fin 600)) then MarginallySuitable
      else Suitable)"

definition verdict_suhu :: "pyfloat \<Rightarrow> verdict" where
  "verdict_suhu suhu =
     (if flt suhu (Fin 21) \<or> fgt suhu (Fin 27) then NotSuitable
      else if (fle (Fin 21) suhu \<and> flt suhu (Fin 23)) \<or> (flt (Fin 25) suhu \<and> fle suhu (Fin 27))
      then MarginallySuitable
      else Suitable)"

definition verdict_do :: "pyfloat \<Rightarrow> verdict" where
  "verdict_do do =
     (if flt do (Fin (5 / 2)) \<or> fgt do (Fin 7) then NotSuitable
      else if (fle (Fin (5 / 2)) do \<and> flt do (Fin 4)) \<or> (flt (Fin 6) do \<and> fle do (Fin 7))
      then MarginallySuitable
      else Suitable)"

text \<open>
  The entry a parameter of a given verdict contributes to the list of reasons: none when
  it is suitable, else the message of its branch.
\<close>

definition reason_ph :: "(pyfloat \<Rightarrow> string) \<Rightarrow> pyfloat \<Rightarrow> string list" where
  "reason_ph fstr ph =
     (case verdict_ph ph of
        NotSuitable \<Rightarrow> [''pH tidak layak ('' @ fstr ph @ '') - Range layak: 6.5-7.8'']
      | MarginallySuitable \<Rightarrow> [''pH kurang layak ('' @ fstr ph @ '') - Range layak: 6.5-7.8'']
      | Suitable \<Rightarrow> [])"

definition reason_tds :: "(pyfloat \<Rightarrow> string) \<Rightarrow> pyfloat \<Rightarrow> string list" where
  "reason_tds fstr tds =
     (case verdict_tds tds of
        NotSuitable \<Rightarrow> [''TDS tidak layak ('' @ fstr tds @ '' mg/L) - Range layak: 50-400 mg/L'']
      | MarginallySuitable \<Rightarrow> [''TDS kurang layak ('' @ fstr tds @ '' mg/L) - Range layak: 50-400 mg/L'']
      | Suitable \<Rightarrow> [])"

definition reason_suhu :: "(pyfloat \<Rightarrow> string) \<Rightarrow> pyfloat \<Rightarrow> string list" where
  "reason_suhu fstr suhu =
     (case verdict_suhu suhu of
        NotSuitable \<Rightarrow>
          [''Suhu tidak layak ('' @ fstr suhu @ [CHR 0xB0] @ ''C) - Range layak: 23-25'' @ [CHR 0xB0] @ ''C'']
      | MarginallySuitable \<Rightarrow>
          [''Suhu kurang layak ('' @ fstr suhu @ [CHR 0xB0] @ ''C) - Range layak: 23-25'' @ [CHR 0xB0] @ ''C'']
      | Suitable \<Rightarrow> [])"

definition reason_do :: "(pyfloat \<Rightarrow> string) \<Rightarrow> pyfloat \<Rightarrow> string list" where
  "reason_do fstr do =
     (case verdict_do do of
        NotSuitable \<Rightarrow> [''DO tidak layak ('' @ fstr do @ '' mg/L) - Range layak: 4-6 mg/L'']
      | MarginallySuitable \<Rightarrow> [''DO kurang layak ('' @ fstr do @ '' mg/L) - Range layak: 4-6 mg/L'']
      | Suitable \<Rightarrow> [])"

text \<open>How many of the four verdicts equal a given one.\<close>

definition count_verdict :: "verdict \<Rightarrow> pyfloat \<Rightarrow> pyfloat \<Rightarrow> pyfloat \<Rightarrow> pyfloat \<Rightarrow> int" where
  "count_verdict v ph tds suhu do =
     int (length (filter (\<lambda>w. w = v) [verdict_ph ph, verdict_tds tds, verdict_suhu suhu, verdict_do do]))"

text \<open>
  The literal \<open>7.8\<close> of line 47 is no binary64 number: Python reads it as the nearest
  one, \<open>b64_7_8\<close>, whose successor among the binary64 numbers is \<open>b64_7_8_succ\<close>
  (one unit in the last place, \<open>1 / 2 ^ 50\<close>, above it).  The checks above compare
  with the decimal value; \<open>literal_7_8\<close> below shows that this is the same comparison
  on every binary64 number.  The other thresholds are binary64 numbers themselves.
\<close>

definition b64_7_8 :: rat where
  "b64_7_8 = 8782019273372467 / 2 ^ 50"

definition b64_7_8_succ :: rat where
  "b64_7_8_succ = 8782019273372468 / 2 ^ 50"

section \<open>The request handler: \<open>classify\<close>\<close>

text \<open>
  Exceptions, as far as the handlers of \<open>classify\<close> tell them apart: \<open>ValueError\<close> (and
  its subclasses) is answered with status 400, every other subclass of \<open>Exception\<close> with
  status 500 (\<open>TypeError\<close> and \<open>OverflowError\<close> are named since the interpreter raises
  them in the body), and an exception that is not an \<open>Exception\<close>, here
  \<open>NonException\<close>, is caught only by the bare \<open>except\<close> of line 164.  The message of
  an exception is not modelled.
\<close>

datatype pyexn = ValueError | TypeError | OverflowError | OtherException | NonException

definition bind_exn :: "pyexn + 'a \<Rightarrow> ('a \<Rightarrow> pyexn + 'b) \<Rightarrow> pyexn + 'b" where
  "bind_exn m f = (case m of Inl e \<Rightarrow> Inl e | Inr a \<Rightarrow> f a)"

text \<open>What \<open>request.get_json()\<close> returns: a decoded JSON value.\<close>

datatype json =
  JNull | JBool bool | JInt int | JFloat pyfloat | JStr string
  | JArr "json list" | JObj "(string \<times> json) list"

text \<open>\<open>k in s\<close> on two strings: \<open>k\<close> occurs in \<open>s\<close> as a contiguous piece.\<close>

fun substring :: "string \<Rightarrow> string \<Rightarrow> bool" where
  "substring k [] = (k = [])"
| "substring k (c # cs) = (take (length k) (c # cs) = k \<or> substring k cs)"

text \<open>
  \<open>k in data\<close> for a string \<open>k\<close>: a key of a dictionary, an element of a list, a
  piece of a string; \<open>TypeError\<close> on a value that is no container.
\<close>

fun py_in :: "string \<Rightarrow> json \<Rightarrow> pyexn + bool" where
  "py_in k (JObj kvs) = Inr (map_of kvs k \<noteq> None)"
| "py_in k (JArr xs) = Inr (List.member xs (JStr k))"
| "py_in k (JStr s) = Inr (substring k s)"
| "py_in k d = Inl TypeError"

text \<open>\<open>all(k in data for k in ks)\<close>: stops at the first key that is missing.\<close>

fun all_in :: "string list \<Rightarrow> json \<Rightarrow> pyexn + bool" where
  "all_in [] d = Inr True"
| "all_in (k # ks) d = bind_exn (py_in k d) (\<lambda>b. if b then all_in ks d else Inr False)"

text \<open>
  \<open>data[k]\<close> for a string \<open>k\<close>: the value of a dictionary (a missing key raises
  \<open>KeyError\<close>, an \<open>Exception\<close>); a list, a string and every other value raise
  \<open>TypeError\<close>.
\<close>

fun getitem :: "json \<Rightarrow> string \<Rightarrow> pyexn + json" where
  "getitem (JObj kvs) k = (case map_of kvs k of None \<Rightarrow> Inl OtherException | Some v \<Rightarrow> Inr v)"
| "getitem d k = Inl TypeError"

text \<open>
  The one-row \<open>DataFrame\<close> of lines 138 to 143; the dictionary under the key
  \<open>input\<close> of the answer holds the same four values.
\<close>

record reading =
  r_suhu :: pyfloat
  r_ph :: pyfloat
  r_do :: pyfloat
  r_tds :: pyfloat

text \<open>A label as the model predicts it: a string or a number.\<close>

datatype pyval = PStr string | PInt int | PFloat pyfloat

text \<open>
  The loaded model, by the two expressions the handler evaluates on it:
  \<open>model.predict(df)[0]\<close> and \<open>model.predict_proba(df)[0]\<close>, each of which yields a
  value or raises.
\<close>

record model =
  predict :: "reading \<Rightarrow> pyexn + pyval"
  predict_proba :: "reading \<Rightarrow> pyexn + pyfloat list"

text \<open>
  Library operations on floats that the handler calls and this theory takes as
  parameters: \<open>str\<close> of a float (in the f-strings) and of a prediction, \<open>float\<close> of a
  decoded JSON value, and the multiplication of two floats.
\<close>

record builtins =
  float_str :: "pyfloat \<Rightarrow> string"
  pred_str :: "pyval \<Rightarrow> string"
  to_float :: "json \<Rightarrow> pyexn + pyfloat"
  float_mul :: "pyfloat \<Rightarrow> pyfloat \<Rightarrow> pyfloat"

text \<open>
  \<open>s.strip()\<close> removes the white space at both ends of a string; among the code
  points below 256 the white space of \<open>str\<close> is 9 to 13, 28 to 32, 133 and 160.
\<close>

definition py_isspace :: "char \<Rightarrow> bool" where
  "py_isspace c = ((of_char c :: nat) \<in> {9, 10, 11, 12, 13, 28, 29, 30, 31, 32, 133, 160})"

definition strip :: "string \<Rightarrow> string" where
  "strip s = rev (dropWhile py_isspace (rev (dropWhile py_isspace s)))"

definition label_map :: "string \<rightharpoonup> int" where
  "label_map =
     [''Layak'' \<mapsto> 1, ''Kurang Layak'' \<mapsto> 0, ''Kurang layak'' \<mapsto> 0,
      ''Tidak Layak'' \<mapsto> 2, ''Tidak layak'' \<mapsto> 2]"

text \<open>
  \<open>int(x)\<close> on a float: truncation towards zero; nan raises \<open>ValueError\<close> and an
  infinity \<open>OverflowError\<close>.
\<close>

fun int_of_float :: "pyfloat \<Rightarrow> pyexn + int" where
  "int_of_float (Fin q) = Inr (if 0 \<le> q then \<lfloor>q\<rfloor> else \<lceil>q\<rceil>)"
| "int_of_float NaN = Inl ValueError"
| "int_of_float x = Inl OverflowError"

text \<open>Lines 148 to 158: the number of the predicted label.\<close>

fun prediction_int_of :: "pyval \<Rightarrow> pyexn + int" where
  "prediction_int_of (PStr s) = Inr (dict_get label_map (strip s) 1)"
| "prediction_int_of (PInt n) = Inr n"
| "prediction_int_of (PFloat x) = int_of_float x"

text \<open>
  \<open>max(xs)\<close> keeps the first element and replaces it by each later one that is greater;
  \<open>ValueError\<close> on an empty sequence.
\<close>

fun py_max :: "pyfloat list \<Rightarrow> pyexn + pyfloat" where
  "py_max [] = Inl ValueError"
| "py_max (x # xs) = Inr (fold (\<lambda>y m. if fgt y m then y else m) xs x)"

text \<open>
  Lines 160 to 165: the confidence, \<open>None\<close> when anything raises inside the \<open>try\<close>.
\<close>

definition get_confidence :: "builtins \<Rightarrow> model \<Rightarrow> reading \<Rightarrow> pyfloat option" where
  "get_confidence B m df =
     (case bind_exn (predict_proba m df) (\<lambda>probability.
           bind_exn (py_max probability) (\<lambda>mx. Inr (float_mul B mx (Fin 100))))
      of Inl e \<Rightarrow> None | Inr c \<Rightarrow> Some c)"

text \<open>
  The dictionary of lines 169 to 181.  Its first four keys are those of the threshold
  dictionary, and carry the prefix \<open>m_\<close> here.
\<close>

record model_result =
  m_classification :: int
  m_classification_label :: string
  m_confidence :: "pyfloat option"
  m_method :: string
  original_prediction :: string
  input :: reading

text \<open>
  The answers of the handler: the threshold dictionary with its added key \<open>note\<close>, the
  model dictionary, or a dictionary with the one key \<open>error\<close>, whose text is the given
  string followed by \<open>str(e)\<close> when an exception is given.  An exception that no handler
  catches leaves \<open>classify\<close>.
\<close>

datatype body =
  ThresholdBody result string
  | ModelBody model_result
  | ErrorBody string "pyexn option"

datatype outcome = Response nat body | Propagated pyexn

text \<open>
  Lines 118 to 129: the request is decoded, checked for the four keys and read.  The
  \<open>return\<close> of line 122 is the left summand of the result, the four floats the right
  one.
\<close>

definition read_input ::
    "builtins \<Rightarrow> pyexn + json \<Rightarrow> pyexn + (nat \<times> body + pyfloat \<times> pyfloat \<times> pyfloat \<times> pyfloat)" where
  "read_input B get_json =
     bind_exn get_json (\<lambda>data.
     bind_exn (all_in [''ph'', ''tds'', ''suhu'', ''do''] data) (\<lambda>present.
       if \<not> present then
         Inr (Inl (400, ErrorBody ''Missing required parameters. Need: ph, tds, suhu, do'' None))
       else
         bind_exn (bind_exn (getitem data ''ph'') (to_float B)) (\<lambda>ph.
         bind_exn (bind_exn (getitem data ''tds'') (to_float B)) (\<lambda>tds.
         bind_exn (bind_exn (getitem data ''suhu'') (to_float B)) (\<lambda>suhu.
         bind_exn (bind_exn (getitem data ''do'') (to_float B)) (\<lambda>do_value.
           Inr (Inr (ph, tds, suhu, do_value))))))))"

text \<open>Lines 131 to 183: the classification of the four floats.\<close>

definition classify_values ::
    "builtins \<Rightarrow> model option \<Rightarrow> pyfloat \<Rightarrow> pyfloat \<Rightarrow> pyfloat \<Rightarrow> pyfloat \<Rightarrow> pyexn + nat \<times> body" where
  "classify_values B mdl ph tds suhu do_value =
     (case mdl of
        None \<Rightarrow>
          Inr (200, ThresholdBody (simple_classification (float_str B) ph tds suhu do_value)
                 ''Using fallback classification (model not loaded)'')
      | Some m \<Rightarrow>
          (let df = \<lparr>r_suhu = suhu, r_ph = ph, r_do = do_value, r_tds = tds\<rparr> in
           bind_exn (predict m df) (\<lambda>prediction.
           bind_exn (prediction_int_of prediction) (\<lambda>prediction_int.
             let confidence = get_confidence B m df in
             Inr (200, ModelBody
               \<lparr>m_classification = prediction_int,
                m_classification_label = dict_get label_names prediction_int ''Unknown'',
                m_confidence = confidence,
                m_method = ''decision_tree_model'',
                original_prediction = pred_str B prediction,
                input = df\<rparr>)))))"

text \<open>The body of the \<open>try\<close> of \<open>classify\<close>, lines 118 to 183.\<close>

definition classify_try :: "builtins \<Rightarrow> model option \<Rightarrow> pyexn + json \<Rightarrow> pyexn + nat \<times> body" where
  "classify_try B mdl get_json =
     bind_exn (read_input B get_json) (\<lambda>r.
       case r of
         Inl early \<Rightarrow> Inr early
       | Inr (ph, tds, suhu, do_value) \<Rightarrow> classify_values B mdl ph tds suhu do_value)"

text \<open>Lines 185 to 188: the two handlers of the \<open>try\<close>.\<close>

definition classify :: "builtins \<Rightarrow> model option \<Rightarrow> pyexn + json \<Rightarrow> outcome" where
  "classify B mdl get_json =
     (case classify_try B mdl get_json of
        Inr (status, b) \<Rightarrow> Response status b
      | Inl e \<Rightarrow>
          if e = ValueError then Response 400 (ErrorBody ''Invalid input values: '' (Some e))
          else if e \<noteq> NonException then Response 500 (ErrorBody ''Classification failed: '' (Some e))
          else Propagated e)"

section \<open>Concrete collaborators for the instances below\<close>

text \<open>
  The instances below need concrete collaborators.  The formatters print no digits; the
  conversion reads JSON numbers only (every string is refused); the product is the exact
  one of two finite values, which is the float product whenever it is a binary64
  number, as it is for 0.75 and 100.
\<close>

definition stub_str :: "pyfloat \<Rightarrow> string" where
  "stub_str x = ''?''"

fun stub_pred_str :: "pyval \<Rightarrow> string" where
  "stub_pred_str (PStr s) = s"
| "stub_pred_str p = ''?''"

fun stub_to_float :: "json \<Rightarrow> pyexn + pyfloat" where
  "stub_to_float (JFloat x) = Inr x"
| "stub_to_float (JInt n) = Inr (Fin (of_int n))"
| "stub_to_float (JBool b) = Inr (Fin (if b then 1 else 0))"
| "stub_to_float (JStr s) = Inl ValueError"
| "stub_to_float d = Inl TypeError"

fun stub_mul :: "pyfloat \<Rightarrow> pyfloat \<Rightarrow> pyfloat" where
  "stub_mul (Fin a) (Fin b) = Fin (a * b)"
| "stub_mul x y = NaN"

definition stub_builtins :: builtins where
  "stub_builtins =
     \<lparr>float_str = stub_str, pred_str = stub_pred_str, to_float = stub_to_float, float_mul = stub_mul\<rparr>"

text \<open>A model that answers every reading alike.\<close>

definition const_model :: "pyexn + pyval \<Rightarrow> pyexn + pyfloat list \<Rightarrow> model" where
  "const_model p q = \<lparr>predict = (\<lambda>df. p), predict_proba = (\<lambda>df. q)\<rparr>"

text \<open>The request of the docstring of \<open>classify\<close>.\<close>

definition example_request :: json where
  "example_request =
     JObj [(''ph'', JFloat (Fin 7)), (''tds'', JInt 200), (''suhu'', JInt 24), (''do'', JFloat (Fin 5))]"

section \<open>Facts about the threshold classifier\<close>

text \<open>Each check changes the two counts and the reasons as the verdict of its parameter says.\<close>

lemma cek_ph_facts:
  "not_suitable_count (cek_ph fstr ph s) =
     not_suitable_count s + (if verdict_ph ph = NotSuitable then 1 else 0)"
  "less_suitable_count (cek_ph fstr ph s) =
     less_suitable_count s + (if verdict_ph ph = MarginallySuitable then 1 else 0)"
  "reasons (cek_ph fstr ph s) = reasons s @ reason_ph fstr ph"
  by (simp_all add: cek_ph_def verdict_ph_def reason_ph_def)

lemma cek_tds_facts:
  "not_suitable_count (cek_tds fstr tds s) =
     not_suitable_count s + (if verdict_tds tds = NotSuitable then 1 else 0)"
  "less_suitable_count (cek_tds fstr tds s) =
     less_suitable_count s + (if verdict_tds tds = MarginallySuitable then 1 else 0)"
  "reasons (cek_tds fstr tds s) = reasons s @ reason_tds fstr tds"
  by (simp_all add: cek_tds_def verdict_tds_def reason_tds_def)

lemma cek_suhu_facts:
  "not_suitable_count (cek_suhu fstr suhu s) =
     not_suitable_count s + (if verdict_suhu suhu = NotSuitable then 1 else 0)"
  "less_suitable_count (cek_suhu fstr suhu s) =
     less_suitable_count s + (if verdict_suhu suhu = MarginallySuitable then 1 else 0)"
  "reasons (cek_suhu fstr suhu s) = reasons s @ reason_suhu fstr suhu"
  by (simp_all add: cek_suhu_def verdict_suhu_def reason_suhu_def)

lemma cek_do_facts:
  "not_suitable_count (cek_do fstr do s) =
     not_suitable_count s + (if verdict_do do = NotSuitable then 1 else 0)"
  "less_suitable_count (cek_do fstr do s) =
     less_suitable_count s + (if verdict_do do = MarginallySuitable then 1 else 0)"
  "reasons (cek_do fstr do s) = reasons s @ reason_do fstr do"
  by (simp_all add: cek_do_def verdict_do_def reason_do_def)

lemma tentukan_facts:
  "not_suitable_count (tentukan_klasifikasi s) = not_suitable_count s"
  "less_suitable_count (tentukan_klasifikasi s) = less_suitable_count s"
  "reasons (tentukan_klasifikasi s) = reasons s"
  "classification (tentukan_klasifikasi s) =
     (if 0 < not_suitable_count s then 2 else if 0 < less_suitable_count s then 0 else 1)"
  by (simp_all add: tentukan_klasifikasi_def)

lemmas step_facts = cek_ph_facts cek_tds_facts cek_suhu_facts cek_do_facts tentukan_facts

lemma sc_not_suitable_count:
  "not_suitable_count (simple_classification fstr ph tds suhu do) =
     count_verdict NotSuitable ph tds suhu do"
  by (simp add: simple_classification_def Let_def step_facts count_verdict_def)

lemma sc_less_suitable_count:
  "less_suitable_count (simple_classification fstr ph tds suhu do) =
     count_verdict MarginallySuitable ph tds suhu do"
  by (simp add: simple_classification_def Let_def step_facts count_verdict_def)

lemma sc_reasons:
  "reasons (simple_classification fstr ph tds suhu do) =
     reason_ph fstr ph @ reason_tds fstr tds @ reason_suhu fstr suhu @ reason_do fstr do"
  by (simp add: simple_classification_def Let_def step_facts)

lemma sc_classification:
  "classification (simple_classification fstr ph tds suhu do) =
     (if 0 < not_suitable_count (simple_classification fstr ph tds suhu do) then 2
      else if 0 < less_suitable_count (simple_classification fstr ph tds suhu do) then 0
      else 1)"
  by (simp add: simple_classification_def Let_def step_facts)

lemma count_verdict_pos:
  "0 < count_verdict v ph tds suhu do \<longleftrightarrow>
     v \<in> {verdict_ph ph, verdict_tds tds, verdict_suhu suhu, verdict_do do}"
  by (auto simp add: count_verdict_def)

lemma count_verdict_bounds:
  "0 \<le> count_verdict v ph tds suhu do" "count_verdict v ph tds suhu do \<le> 4"
  by (simp_all add: count_verdict_def)

lemma reason_lengths:
  "int (length (reason_ph fstr ph)) = (if verdict_ph ph = Suitable then 0 else 1)"
  "int (length (reason_tds fstr tds)) = (if verdict_tds tds = Suitable then 0 else 1)"
  "int (length (reason_suhu fstr suhu)) = (if verdict_suhu suhu = Suitable then 0 else 1)"
  "int (length (reason_do fstr do)) = (if verdict_do do = Suitable then 0 else 1)"
  by (simp_all add: reason_ph_def reason_tds_def reason_suhu_def reason_do_def
      split: verdict.splits)

text \<open>A verdict counts for exactly one of: not suitable, marginally suitable, suitable.\<close>

lemma verdict_share:
  "(if (w::verdict) = NotSuitable then 1 else 0) + (if w = MarginallySuitable then 1 else 0)
     = (if w = Suitable then 0 else (1::int))"
  by (cases w) simp_all

lemma count_verdict_sum:
  "count_verdict NotSuitable ph tds suhu do + count_verdict MarginallySuitable ph tds suhu do =
     (if verdict_ph ph = Suitable then 0 else 1) + (if verdict_tds tds = Suitable then 0 else 1)
     + (if verdict_suhu suhu = Suitable then 0 else 1) + (if verdict_do do = Suitable then 0 else 1)"
proof -
  have "count_verdict NotSuitable ph tds suhu do + count_verdict MarginallySuitable ph tds suhu do =
      ((if verdict_ph ph = NotSuitable then 1 else 0) + (if verdict_ph ph = MarginallySuitable then 1 else 0))
    + ((if verdict_tds tds = NotSuitable then 1 else 0) + (if verdict_tds tds = MarginallySuitable then 1 else 0))
    + ((if verdict_suhu suhu = NotSuitable then 1 else 0) + (if verdict_suhu suhu = MarginallySuitable then 1 else 0))
    + ((if verdict_do do = NotSuitable then 1 else 0) + (if verdict_do do = MarginallySuitable then 1 else 0))"
    by (simp add: count_verdict_def)
  then show ?thesis
    by (simp only: verdict_share)
qed

text \<open>
  On binary64 numbers, none of which lies strictly between \<open>b64_7_8\<close> and its
  successor, comparing with the decimal 7.8 is comparing with \<open>b64_7_8\<close>.
\<close>

lemma literal_7_8:
  "b64_7_8 < 78 / 10" "78 / 10 < b64_7_8_succ"
  "x \<le> b64_7_8 \<or> b64_7_8_succ \<le> x \<Longrightarrow> flt (Fin (78 / 10)) (Fin x) = flt (Fin b64_7_8) (Fin x)"
  by (auto simp add: b64_7_8_def b64_7_8_succ_def)

section \<open>Claims about the threshold classifier\<close>

text \<open>
  Claim C1.  For every input of the threshold classifier the overall label follows the
  priority order of lines 76 to 81: it is 2 when \<open>not_suitable_count\<close> is positive,
  whatever the other parameters are; else 0 when \<open>less_suitable_count\<close> is positive;
  else 1.  In particular one parameter in its bad zone forces the label 2.
\<close>

theorem overall_label_priority:
  "classification (simple_classification fstr ph tds suhu do) =
     (if 0 < not_suitable_count (simple_classification fstr ph tds suhu do) then 2
      else if 0 < less_suitable_count (simple_classification fstr ph tds suhu do) then 0
      else 1)
   \<and> (NotSuitable \<in> {verdict_ph ph, verdict_tds tds, verdict_suhu suhu, verdict_do do}
        \<longrightarrow> classification (simple_classification fstr ph tds suhu do) = 2)"
proof -
  have "NotSuitable \<in> {verdict_ph ph, verdict_tds tds, verdict_suhu suhu, verdict_do do}
      \<Longrightarrow> 0 < not_suitable_count (simple_classification fstr ph tds suhu do)"
    by (simp only: sc_not_suitable_count count_verdict_pos)
  then show ?thesis
    using sc_classification [of fstr ph tds suhu do] by simp
qed

text \<open>The example of the specification: a bad TDS among three good parameters.\<close>

theorem overall_label_priority_witness:
  "NotSuitable \<in> {verdict_ph (Fin 7), verdict_tds (Fin 700), verdict_suhu (Fin 24), verdict_do (Fin 5)}
   \<and> classification (simple_classification stub_str (Fin 7) (Fin 700) (Fin 24) (Fin 5)) = 2"
proof -
  have h: "NotSuitable \<in> {verdict_ph (Fin 7), verdict_tds (Fin 700), verdict_suhu (Fin 24), verdict_do (Fin 5)}"
    by (simp add: verdict_tds_def fgt_def)
  have "NotSuitable \<in> {verdict_ph (Fin 7), verdict_tds (Fin 700), verdict_suhu (Fin 24), verdict_do (Fin 5)}
      \<longrightarrow> classification (simple_classification stub_str (Fin 7) (Fin 700) (Fin 24) (Fin 5)) = 2"
    using overall_label_priority [of stub_str "Fin 7" "Fin 700" "Fin 24" "Fin 5"] by (rule conjunct2)
  with h show ?thesis
    by (intro conjI) (assumption, erule (1) mp)
qed

text \<open>
  Claim C2, as the specification states it: a pH of exactly 6.0 lies in the bad zone and
  increments \<open>not_suitable_count\<close>.  Line 44 tests \<open>ph < 6.0\<close>, which 6.0 fails, and line
  47 tests \<open>6.0 <= ph < 6.5\<close>, which it passes: with the other three parameters good,
  the classifier counts no unsuitable parameter and one marginal one.
\<close>

theorem ph_six_counterexample:
  "not_suitable_count (simple_classification stub_str (Fin 6) (Fin 200) (Fin 24) (Fin 5)) = 0
   \<and> less_suitable_count (simple_classification stub_str (Fin 6) (Fin 200) (Fin 24) (Fin 5)) = 1
   \<and> classification (simple_classification stub_str (Fin 6) (Fin 200) (Fin 24) (Fin 5)) = 0"
  by (simp add: simple_classification_def Let_def cek_ph_def cek_tds_def cek_suhu_def cek_do_def
      tentukan_klasifikasi_def fgt_def)

text \<open>
  Claim C2, amended.  A pH of exactly 6.0 lies in the marginal band: its check leaves
  \<open>not_suitable_count\<close> as it is, increments \<open>less_suitable_count\<close> and appends the
  reason of the marginal branch.  The bad zone of a finite pH is strictly below 6.0 or
  strictly above 8.5.
\<close>

theorem ph_six_is_marginal:
  "cek_ph fstr (Fin 6) s =
     s\<lparr>less_suitable_count := less_suitable_count s + 1,
       reasons := reasons s @ [''pH kurang layak ('' @ fstr (Fin 6) @ '') - Range layak: 6.5-7.8'']\<rparr>
   \<and> not_suitable_count (cek_ph fstr (Fin 6) s) = not_suitable_count s
   \<and> verdict_ph (Fin 6) = MarginallySuitable
   \<and> (verdict_ph (Fin q) = NotSuitable \<longleftrightarrow> q < 6 \<or> 17 / 2 < q)"
  by (simp add: cek_ph_def verdict_ph_def fgt_def)

theorem ph_six_is_marginal_witness:
  "cek_ph stub_str (Fin 6)
     \<lparr>classification = 1, reasons = [], not_suitable_count = 0, less_suitable_count = 0\<rparr> =
     \<lparr>classification = 1, reasons = [''pH kurang layak (?) - Range layak: 6.5-7.8''],
      not_suitable_count = 0, less_suitable_count = 1\<rparr>
   \<and> verdict_ph (Fin (59 / 10)) = NotSuitable"
  using ph_six_is_marginal [of stub_str
      "\<lparr>classification = 1, reasons = [], not_suitable_count = 0, less_suitable_count = 0\<rparr>"
      "59 / 10"]
  by (simp add: stub_str_def)

text \<open>
  Claim C6.  In the threshold classifier a pH of exactly 6.5 and of exactly 7.8 is
  suitable: the check changes neither count and appends no reason.  A pH of 7.80001 and
  of exactly 8.5 is marginally suitable: \<open>less_suitable_count\<close> is incremented and
  \<open>not_suitable_count\<close> is not.  A pH of 8.50001 is not suitable:
  \<open>not_suitable_count\<close> is incremented and \<open>less_suitable_count\<close> is not.  The verdicts
  are the same at the binary64 numbers that Python reads from \<open>7.8\<close>, \<open>7.80001\<close> and
  \<open>8.50001\<close>.
\<close>

theorem ph_upper_boundaries:
  "cek_ph fstr (Fin (65 / 10)) s = s
   \<and> cek_ph fstr (Fin (78 / 10)) s = s
   \<and> less_suitable_count (cek_ph fstr (Fin (780001 / 100000)) s) = less_suitable_count s + 1
   \<and> not_suitable_count (cek_ph fstr (Fin (780001 / 100000)) s) = not_suitable_count s
   \<and> length (reasons (cek_ph fstr (Fin (780001 / 100000)) s)) = length (reasons s) + 1
   \<and> less_suitable_count (cek_ph fstr (Fin (85 / 10)) s) = less_suitable_count s + 1
   \<and> not_suitable_count (cek_ph fstr (Fin (85 / 10)) s) = not_suitable_count s
   \<and> length (reasons (cek_ph fstr (Fin (85 / 10)) s)) = length (reasons s) + 1
   \<and> not_suitable_count (cek_ph fstr (Fin (850001 / 100000)) s) = not_suitable_count s + 1
   \<and> less_suitable_count (cek_ph fstr (Fin (850001 / 100000)) s) = less_suitable_count s
   \<and> length (reasons (cek_ph fstr (Fin (850001 / 100000)) s)) = length (reasons s) + 1
   \<and> verdict_ph (Fin (65 / 10)) = Suitable
   \<and> verdict_ph (Fin (78 / 10)) = Suitable
   \<and> verdict_ph (Fin b64_7_8) = Suitable
   \<and> verdict_ph (Fin (780001 / 100000)) = MarginallySuitable
   \<and> verdict_ph (Fin (548876908273221 / 2 ^ 46)) = MarginallySuitable
   \<and> verdict_ph (Fin (85 / 10)) = MarginallySuitable
   \<and> verdict_ph (Fin (850001 / 100000)) = NotSuitable
   \<and> verdict_ph (Fin (2392540116790343 / 2 ^ 48)) = NotSuitable"
  by (simp add: cek_ph_def verdict_ph_def fgt_def b64_7_8_def)

theorem ph_upper_boundaries_witness:
  "less_suitable_count (cek_ph stub_str (Fin (85 / 10))
      \<lparr>classification = 1, reasons = [], not_suitable_count = 0, less_suitable_count = 0\<rparr>) = 1
   \<and> not_suitable_count (cek_ph stub_str (Fin (850001 / 100000))
      \<lparr>classification = 1, reasons = [], not_suitable_count = 0, less_suitable_count = 0\<rparr>) = 1"
  using ph_upper_boundaries [of stub_str
      "\<lparr>classification = 1, reasons = [], not_suitable_count = 0, less_suitable_count = 0\<rparr>"]
  by simp

text \<open>
  Claim C7.  For every input the result of the threshold classifier has the method
  \<open>simple_threshold\<close> and the confidence \<open>None\<close>: the threshold method never gives a
  numeric confidence.
\<close>

theorem threshold_method_and_confidence:
  "method (simple_classification fstr ph tds suhu do) = ''simple_threshold''
   \<and> confidence (simple_classification fstr ph tds suhu do) = None"
  by (simp add: simple_classification_def Let_def)

theorem threshold_method_and_confidence_witness:
  "method (simple_classification stub_str (Fin 7) (Fin 700) (Fin 24) NaN) = ''simple_threshold''
   \<and> confidence (simple_classification stub_str (Fin 7) (Fin 700) (Fin 24) NaN) = None"
  using threshold_method_and_confidence [of stub_str "Fin 7" "Fin 700" "Fin 24" NaN]
  by simp

text \<open>
  Claim C9.  For every input the list of reasons of the threshold classifier holds, in
  the order pH, TDS, temperature, DO, exactly one entry for each parameter whose verdict
  is not suitable or marginally suitable, and no entry for a suitable parameter.
\<close>

theorem reasons_one_per_unsuitable_parameter_in_order:
  "reasons (simple_classification fstr ph tds suhu do) =
     reason_ph fstr ph @ reason_tds fstr tds @ reason_suhu fstr suhu @ reason_do fstr do
   \<and> int (length (reason_ph fstr ph)) = (if verdict_ph ph = Suitable then 0 else 1)
   \<and> int (length (reason_tds fstr tds)) = (if verdict_tds tds = Suitable then 0 else 1)
   \<and> int (length (reason_suhu fstr suhu)) = (if verdict_suhu suhu = Suitable then 0 else 1)
   \<and> int (length (reason_do fstr do)) = (if verdict_do do = Suitable then 0 else 1)"
  by (simp only: sc_reasons reason_lengths simp_thms)

text \<open>A marginal pH, a good TDS, a bad temperature and a marginal DO.\<close>

theorem reasons_one_per_unsuitable_parameter_in_order_witness:
  "reasons (simple_classification stub_str (Fin (62 / 10)) (Fin 200) (Fin 30) (Fin 3)) =
     [''pH kurang layak (?) - Range layak: 6.5-7.8'',
      ''Suhu tidak layak (?'' @ [CHR 0xB0] @ ''C) - Range layak: 23-25'' @ [CHR 0xB0] @ ''C'',
      ''DO kurang layak (? mg/L) - Range layak: 4-6 mg/L'']
   \<and> verdict_tds (Fin 200) = Suitable"
  using reasons_one_per_unsuitable_parameter_in_order [of stub_str "Fin (62 / 10)" "Fin 200" "Fin 30" "Fin 3"]
  by (simp add: reason_ph_def reason_tds_def reason_suhu_def reason_do_def
      verdict_ph_def verdict_tds_def verdict_suhu_def verdict_do_def fgt_def stub_str_def)

text \<open>
  Claim C10.  For every input the output of the threshold classifier has as many
  reasons as \<open>not_suitable_count\<close> and \<open>less_suitable_count\<close> together, each count lies
  between 0 and 4, and their sum is at most 4.
\<close>

theorem counts_and_reasons_invariant:
  "int (length (reasons (simple_classification fstr ph tds suhu do))) =
     not_suitable_count (simple_classification fstr ph tds suhu do)
     + less_suitable_count (simple_classification fstr ph tds suhu do)
   \<and> 0 \<le> not_suitable_count (simple_classification fstr ph tds suhu do)
   \<and> not_suitable_count (simple_classification fstr ph tds suhu do) \<le> 4
   \<and> 0 \<le> less_suitable_count (simple_classification fstr ph tds suhu do)
   \<and> less_suitable_count (simple_classification fstr ph tds suhu do) \<le> 4
   \<and> not_suitable_count (simple_classification fstr ph tds suhu do)
     + less_suitable_count (simple_classification fstr ph tds suhu do) \<le> 4"
proof -
  have len: "int (length (reasons (simple_classification fstr ph tds suhu do))) =
      int (length (reason_ph fstr ph)) + int (length (reason_tds fstr tds))
      + int (length (reason_suhu fstr suhu)) + int (length (reason_do fstr do))"
    by (simp add: sc_reasons)
  have sum: "not_suitable_count (simple_classification fstr ph tds suhu do)
      + less_suitable_count (simple_classification fstr ph tds suhu do) =
      int (length (reason_ph fstr ph)) + int (length (reason_tds fstr tds))
      + int (length (reason_suhu fstr suhu)) + int (length (reason_do fstr do))"
    by (simp only: sc_not_suitable_count sc_less_suitable_count count_verdict_sum reason_lengths)
  have le4: "int (length (reason_ph fstr ph)) + int (length (reason_tds fstr tds))
      + int (length (reason_suhu fstr suhu)) + int (length (reason_do fstr do)) \<le> 4"
    by (simp add: reason_lengths)
  show ?thesis
    using len sum le4 count_verdict_bounds [of NotSuitable ph tds suhu do]
      count_verdict_bounds [of MarginallySuitable ph tds suhu do]
    by (simp add: sc_not_suitable_count sc_less_suitable_count)
qed

theorem counts_and_reasons_invariant_witness:
  "length (reasons (simple_classification stub_str (Fin 5) (Fin 700) (Fin 30) (Fin 8))) = 4
   \<and> not_suitable_count (simple_classification stub_str (Fin 5) (Fin 700) (Fin 30) (Fin 8)) = 4
   \<and> less_suitable_count (simple_classification stub_str (Fin 5) (Fin 700) (Fin 30) (Fin 8)) = 0"
  using counts_and_reasons_invariant [of stub_str "Fin 5" "Fin 700" "Fin 30" "Fin 8"]
  by (simp add: sc_not_suitable_count sc_less_suitable_count count_verdict_def
      verdict_ph_def verdict_tds_def verdict_suhu_def verdict_do_def fgt_def)

section \<open>Facts about the request handler\<close>

lemma bind_exn_eq_Inr: "bind_exn m f = Inr y \<longleftrightarrow> (\<exists>a. m = Inr a \<and> f a = Inr y)"
  by (cases m) (simp_all add: bind_exn_def)

text \<open>The only early return of the reading phase is the answer of line 122.\<close>

lemma read_input_early:
  assumes "read_input B get_json = Inr (Inl early)"
  shows "early = (400, ErrorBody ''Missing required parameters. Need: ph, tds, suhu, do'' None)"
  using assms
  by (auto simp add: read_input_def bind_exn_eq_Inr split: if_splits)

lemma read_example_request:
  "read_input stub_builtins (Inr example_request) = Inr (Inr (Fin 7, Fin 200, Fin 24, Fin 5))"
  by (simp add: read_input_def example_request_def bind_exn_def stub_builtins_def)

lemma classify_fallback:
  assumes "read_input B get_json = Inr (Inr (ph, tds, suhu, do))"
  shows "classify B None get_json =
     Response 200 (ThresholdBody (simple_classification (float_str B) ph tds suhu do)
       ''Using fallback classification (model not loaded)'')"
  using assms by (simp add: classify_def classify_try_def classify_values_def bind_exn_def)

lemma classify_predict_raises:
  assumes "read_input B get_json = Inr (Inr (ph, tds, suhu, do))"
    and "predict m \<lparr>r_suhu = suhu, r_ph = ph, r_do = do, r_tds = tds\<rparr> = Inl e"
  shows "classify B (Some m) get_json =
     (if e = ValueError then Response 400 (ErrorBody ''Invalid input values: '' (Some e))
      else if e \<noteq> NonException then Response 500 (ErrorBody ''Classification failed: '' (Some e))
      else Propagated e)"
  using assms by (simp add: classify_def classify_try_def classify_values_def bind_exn_def)

lemma classify_model_path:
  assumes "read_input B get_json = Inr (Inr (ph, tds, suhu, do))"
    and "predict m \<lparr>r_suhu = suhu, r_ph = ph, r_do = do, r_tds = tds\<rparr> = Inr p"
    and "prediction_int_of p = Inr n"
  shows "classify B (Some m) get_json =
     Response 200 (ModelBody
       \<lparr>m_classification = n,
        m_classification_label = dict_get label_names n ''Unknown'',
        m_confidence = get_confidence B m \<lparr>r_suhu = suhu, r_ph = ph, r_do = do, r_tds = tds\<rparr>,
        m_method = ''decision_tree_model'',
        original_prediction = pred_str B p,
        input = \<lparr>r_suhu = suhu, r_ph = ph, r_do = do, r_tds = tds\<rparr>\<rparr>)"
  using assms
  by (simp add: classify_def classify_try_def classify_values_def bind_exn_def Let_def)

text \<open>An answer with the model dictionary comes from the end of the \<open>try\<close>.\<close>

lemma classify_try_of_response:
  assumes "classify B mdl get_json = Response status b" and "\<forall>msg e. b \<noteq> ErrorBody msg e"
  shows "classify_try B mdl get_json = Inr (status, b)"
  using assms by (auto simp add: classify_def split: sum.splits if_splits)

lemma classify_values_model_body:
  assumes "classify_values B (Some m) ph tds suhu do = Inr (status, ModelBody r)"
  shows "status = 200
    \<and> input r = \<lparr>r_suhu = suhu, r_ph = ph, r_do = do, r_tds = tds\<rparr>
    \<and> (\<exists>p. predict m (input r) = Inr p \<and> prediction_int_of p = Inr (m_classification r))
    \<and> m_classification_label r = dict_get label_names (m_classification r) ''Unknown''
    \<and> m_confidence r = get_confidence B m (input r)"
  using assms
  by (auto simp add: classify_values_def Let_def bind_exn_eq_Inr)

lemma classify_model_body:
  assumes "classify B (Some m) get_json = Response status (ModelBody r)"
  shows "status = 200
    \<and> (\<exists>p. predict m (input r) = Inr p \<and> prediction_int_of p = Inr (m_classification r))
    \<and> m_classification_label r = dict_get label_names (m_classification r) ''Unknown''
    \<and> m_confidence r = get_confidence B m (input r)"
proof -
  have "classify_try B (Some m) get_json = Inr (status, ModelBody r)"
    using assms by (rule classify_try_of_response) simp
  then obtain x where x: "read_input B get_json = Inr x"
    and rest: "(case x of Inl early \<Rightarrow> Inr early
        | Inr (ph, tds, suhu, do_value) \<Rightarrow> classify_values B (Some m) ph tds suhu do_value)
      = Inr (status, ModelBody r)"
    by (auto simp add: classify_try_def bind_exn_eq_Inr)
  show ?thesis
  proof (cases x)
    case (Inl early)
    with x rest read_input_early [of B get_json early] show ?thesis by simp
  next
    case (Inr quad)
    obtain ph tds suhu do_value where "quad = (ph, tds, suhu, do_value)"
      by (cases quad) auto
    with Inr rest have "classify_values B (Some m) ph tds suhu do_value = Inr (status, ModelBody r)"
      by simp
    then show ?thesis
      using classify_values_model_body by blast
  qed
qed

lemma label_names_get:
  "dict_get label_names n ''Unknown'' =
     (if n = 0 then ''Kurang Layak'' else if n = 1 then ''Layak''
      else if n = 2 then ''Tidak Layak'' else ''Unknown'')"
  by (simp add: dict_get_def label_names_def)

lemma label_map_get:
  "dict_get label_map t 1 =
     (if t = ''Layak'' then 1
      else if t = ''Kurang Layak'' \<or> t = ''Kurang layak'' then 0
      else if t = ''Tidak Layak'' \<or> t = ''Tidak layak'' then 2
      else 1)"
  by (simp add: dict_get_def label_map_def)

lemma get_confidence_cases:
  "get_confidence B m df =
     (case predict_proba m df of
        Inl e \<Rightarrow> None
      | Inr row \<Rightarrow> (case py_max row of Inl e \<Rightarrow> None | Inr mx \<Rightarrow> Some (float_mul B mx (Fin 100))))"
  by (simp add: get_confidence_def bind_exn_def split: sum.splits)

text \<open>On finite floats \<open>py_max\<close> is the maximum.\<close>

lemma fold_max_Fin:
  "fold (\<lambda>y m. if fgt y m then y else m) (map Fin qs) (Fin q) = Fin (fold max qs q)"
proof (induction qs arbitrary: q)
  case Nil
  show ?case by simp
next
  case (Cons a qs)
  have "(if fgt (Fin a) (Fin q) then Fin a else Fin q) = Fin (max a q)"
    by (simp add: fgt_def max_def)
  with Cons.IH [of "max a q"] show ?case by simp
qed

lemma py_max_Fin:
  assumes "qs \<noteq> []"
  shows "py_max (map Fin qs) = Inr (Fin (Max (set qs)))"
proof (cases qs)
  case Nil
  with assms show ?thesis by simp
next
  case (Cons a list)
  have "Max (set (a # list)) = fold max list a"
    by (rule Max.set_eq_fold)
  with Cons show ?thesis
    by (simp add: fold_max_Fin)
qed

section \<open>Claims about the request handler\<close>

text \<open>
  Claim C3, as the specification states it: a string label of the model is matched
  without regard to case, so every capitalisation of a known label maps to that
  label's number.  The lookup of line 156 is exact: \<open>tidak layak\<close> and
  \<open>KURANG LAYAK\<close> are no keys of \<open>label_map\<close> and get the default 1, where the claim
  says 2 and 0.
\<close>

theorem label_lookup_counterexample:
  "prediction_int_of (PStr ''tidak layak'') = Inr 1
   \<and> prediction_int_of (PStr ''KURANG LAYAK'') = Inr 1"
  by (simp add: strip_def py_isspace_def dict_get_def label_map_def)

text \<open>
  Claim C3, amended.  When the model returns a string label, the label is trimmed and
  looked up as it is spelled among the five keys \<open>Layak\<close>, \<open>Kurang Layak\<close>,
  \<open>Kurang layak\<close>, \<open>Tidak Layak\<close> and \<open>Tidak layak\<close>; every other string, another
  capitalisation of a known label included, maps to 1 and nothing is raised.
\<close>

theorem label_lookup_is_trimmed_and_exact:
  "prediction_int_of (PStr s) =
     Inr (if strip s = ''Layak'' then 1
          else if strip s = ''Kurang Layak'' \<or> strip s = ''Kurang layak'' then 0
          else if strip s = ''Tidak Layak'' \<or> strip s = ''Tidak layak'' then 2
          else 1)"
  by (simp add: label_map_get)

text \<open>A known label between white space, the line feed included.\<close>

theorem label_lookup_is_trimmed_and_exact_witness:
  "strip ('' Tidak layak '' @ [CHR 0x0A]) = ''Tidak layak''
   \<and> prediction_int_of (PStr ('' Tidak layak '' @ [CHR 0x0A])) = Inr 2"
proof -
  have h: "strip ('' Tidak layak '' @ [CHR 0x0A]) = ''Tidak layak''"
    by (simp add: strip_def py_isspace_def)
  show ?thesis
    using label_lookup_is_trimmed_and_exact [of "'' Tidak layak '' @ [CHR 0x0A]"] h by simp
qed

text \<open>
  Claim C4, as the specification states it: when the model raises during prediction the
  handler falls back to the threshold classifier and answers with a classification,
  never with an error.  Line 145 stands in the \<open>try\<close> whose handler of line 187
  answers with status 500: on the request of the docstring, a loaded model whose
  \<open>predict\<close> raises gets the error answer.
\<close>

theorem predict_error_counterexample:
  "classify stub_builtins (Some (const_model (Inl OtherException) (Inl OtherException)))
     (Inr example_request) =
   Response 500 (ErrorBody ''Classification failed: '' (Some OtherException))"
  by (simp add: classify_def classify_try_def read_example_request classify_values_def
      bind_exn_def const_model_def)

text \<open>
  Claim C4, amended.  On a request whose four parameters are present and readable: when
  the model failed to load, the handler answers with status 200, the result of the
  threshold classifier and the note \<open>Using fallback classification (model not loaded)\<close>;
  when a loaded model raises during prediction there is no fallback, and the answer is
  an error, with status 400 for a \<open>ValueError\<close> and 500 for every other \<open>Exception\<close>.
\<close>

theorem fallback_only_without_model:
  assumes "read_input B get_json = Inr (Inr (ph, tds, suhu, do))"
  shows "classify B None get_json =
       Response 200 (ThresholdBody (simple_classification (float_str B) ph tds suhu do)
         ''Using fallback classification (model not loaded)'')
     \<and> (\<forall>m e. predict m \<lparr>r_suhu = suhu, r_ph = ph, r_do = do, r_tds = tds\<rparr> = Inl e \<longrightarrow>
          classify B (Some m) get_json =
            (if e = ValueError then Response 400 (ErrorBody ''Invalid input values: '' (Some e))
             else if e \<noteq> NonException
               then Response 500 (ErrorBody ''Classification failed: '' (Some e))
             else Propagated e))"
  using classify_fallback [OF assms] classify_predict_raises [OF assms] by blast

theorem fallback_only_without_model_witness:
  "read_input stub_builtins (Inr example_request) = Inr (Inr (Fin 7, Fin 200, Fin 24, Fin 5))
   \<and> classify stub_builtins None (Inr example_request) =
       Response 200 (ThresholdBody
         \<lparr>classification = 1, reasons = [], not_suitable_count = 0, less_suitable_count = 0,
          classification_label = ''Layak'', confidence = None, method = ''simple_threshold''\<rparr>
         ''Using fallback classification (model not loaded)'')
   \<and> classify stub_builtins (Some (const_model (Inl ValueError) (Inl ValueError))) (Inr example_request) =
       Response 400 (ErrorBody ''Invalid input values: '' (Some ValueError))"
proof -
  note h = read_example_request
  note t = fallback_only_without_model [OF h]
  have sc: "simple_classification (float_str stub_builtins) (Fin 7) (Fin 200) (Fin 24) (Fin 5) =
      \<lparr>classification = 1, reasons = [], not_suitable_count = 0, less_suitable_count = 0,
       classification_label = ''Layak'', confidence = None, method = ''simple_threshold''\<rparr>"
    by (simp add: simple_classification_def Let_def cek_ph_def cek_tds_def cek_suhu_def cek_do_def
        tentukan_klasifikasi_def fgt_def label_names_get)
  have p: "predict (const_model (Inl ValueError) (Inl ValueError))
      \<lparr>r_suhu = Fin 24, r_ph = Fin 7, r_do = Fin 5, r_tds = Fin 200\<rparr> = Inl ValueError"
    by (simp add: const_model_def)
  from t have a: "classify stub_builtins None (Inr example_request) =
      Response 200 (ThresholdBody (simple_classification (float_str stub_builtins)
        (Fin 7) (Fin 200) (Fin 24) (Fin 5)) ''Using fallback classification (model not loaded)'')"
    by (rule conjunct1)
  from t p have b: "classify stub_builtins (Some (const_model (Inl ValueError) (Inl ValueError)))
      (Inr example_request) = Response 400 (ErrorBody ''Invalid input values: '' (Some ValueError))"
    by simp
  from h a b sc show ?thesis by simp
qed

text \<open>
  Claim C5, as the specification states it: on the model path \<open>classification\<close> is one
  of 0, 1, 2 and \<open>classification_label\<close> one of the three names, whatever \<open>predict\<close>
  returns.  Line 158 takes a number as it is: for the prediction 5 the answer holds the
  classification 5 and the label \<open>Unknown\<close>.
\<close>

theorem numeric_prediction_counterexample:
  "classify stub_builtins (Some (const_model (Inr (PInt 5)) (Inl OtherException)))
     (Inr example_request) =
   Response 200 (ModelBody
     \<lparr>m_classification = 5, m_classification_label = ''Unknown'', m_confidence = None,
      m_method = ''decision_tree_model'', original_prediction = ''?'',
      input = \<lparr>r_suhu = Fin 24, r_ph = Fin 7, r_do = Fin 5, r_tds = Fin 200\<rparr>\<rparr>)"
proof -
  have p: "predict (const_model (Inr (PInt 5)) (Inl OtherException))
      \<lparr>r_suhu = Fin 24, r_ph = Fin 7, r_do = Fin 5, r_tds = Fin 200\<rparr> = Inr (PInt 5)"
    by (simp add: const_model_def)
  have n: "prediction_int_of (PInt 5) = Inr 5"
    by simp
  show ?thesis
    unfolding classify_model_path [OF read_example_request p n]
    by (simp add: label_names_get get_confidence_def const_model_def bind_exn_def stub_builtins_def)
qed

text \<open>
  Claim C5, amended.  For every successful classification produced via the model path,
  \<open>classification\<close> is the number of the prediction: for a string the number of its
  label, one of 0, 1, 2; for an integer the integer itself, whatever it is.
  \<open>classification_label\<close> is the corresponding name among \<open>Kurang Layak\<close>, \<open>Layak\<close>
  and \<open>Tidak Layak\<close> when \<open>classification\<close> is 0, 1 or 2, and \<open>Unknown\<close> otherwise.
\<close>

theorem model_path_classification_and_label:
  assumes "classify B (Some m) get_json = Response status (ModelBody r)"
  shows "(\<exists>p. predict m (input r) = Inr p \<and> prediction_int_of p = Inr (m_classification r))
     \<and> m_classification_label r =
         (if m_classification r = 0 then ''Kurang Layak''
          else if m_classification r = 1 then ''Layak''
          else if m_classification r = 2 then ''Tidak Layak''
          else ''Unknown'')
     \<and> (\<forall>s. predict m (input r) = Inr (PStr s) \<longrightarrow> m_classification r \<in> {0, 1, 2})
     \<and> (\<forall>n. predict m (input r) = Inr (PInt n) \<longrightarrow> m_classification r = n)"
proof -
  from classify_model_body [OF assms]
  obtain p where p: "predict m (input r) = Inr p"
    and n: "prediction_int_of p = Inr (m_classification r)"
    and l: "m_classification_label r = dict_get label_names (m_classification r) ''Unknown''"
    by blast
  have str: "m_classification r \<in> {0, 1, 2}" if "p = PStr s" for s
    using n that by (simp add: label_map_get split: if_splits)
  have num: "m_classification r = k" if "p = PInt k" for k
    using n that by simp
  from p n l str num show ?thesis
    by (simp add: label_names_get)
qed

theorem model_path_classification_and_label_witness:
  "classify stub_builtins (Some (const_model (Inr (PStr ''Tidak layak'')) (Inl OtherException)))
     (Inr example_request) =
   Response 200 (ModelBody
     \<lparr>m_classification = 2, m_classification_label = ''Tidak Layak'', m_confidence = None,
      m_method = ''decision_tree_model'', original_prediction = ''Tidak layak'',
      input = \<lparr>r_suhu = Fin 24, r_ph = Fin 7, r_do = Fin 5, r_tds = Fin 200\<rparr>\<rparr>)"
proof -
  have h: "classify stub_builtins (Some (const_model (Inr (PStr ''Tidak layak'')) (Inl OtherException)))
      (Inr example_request) =
    Response 200 (ModelBody
      \<lparr>m_classification = 2, m_classification_label = ''Tidak Layak'', m_confidence = None,
       m_method = ''decision_tree_model'', original_prediction = ''Tidak layak'',
       input = \<lparr>r_suhu = Fin 24, r_ph = Fin 7, r_do = Fin 5, r_tds = Fin 200\<rparr>\<rparr>)"
  proof -
    have p: "predict (const_model (Inr (PStr ''Tidak layak'')) (Inl OtherException))
        \<lparr>r_suhu = Fin 24, r_ph = Fin 7, r_do = Fin 5, r_tds = Fin 200\<rparr> = Inr (PStr ''Tidak layak'')"
      by (simp add: const_model_def)
    have n: "prediction_int_of (PStr ''Tidak layak'') = Inr 2"
      by (simp add: label_map_get strip_def py_isspace_def)
    show ?thesis
      unfolding classify_model_path [OF read_example_request p n]
      by (simp add: label_names_get get_confidence_def const_model_def bind_exn_def stub_builtins_def)
  qed
  from model_path_classification_and_label [OF h] have
    "m_classification_label
       \<lparr>m_classification = 2, m_classification_label = ''Tidak Layak'', m_confidence = None,
        m_method = ''decision_tree_model'', original_prediction = ''Tidak layak'',
        input = \<lparr>r_suhu = Fin 24, r_ph = Fin 7, r_do = Fin 5, r_tds = Fin 200\<rparr>\<rparr> = ''Tidak Layak''"
    by simp
  with h show ?thesis
    by simp
qed

text \<open>
  Claim C8.  On the model path, when the retrieval of the class probabilities raises,
  the classification still succeeds, with the confidence \<open>None\<close>; when it returns the
  probabilities, the confidence is their maximum multiplied by 100.
\<close>

theorem confidence_from_probabilities:
  assumes "read_input B get_json = Inr (Inr (ph, tds, suhu, do))"
    and "predict m \<lparr>r_suhu = suhu, r_ph = ph, r_do = do, r_tds = tds\<rparr> = Inr p"
    and "prediction_int_of p = Inr n"
  shows "\<exists>r. classify B (Some m) get_json = Response 200 (ModelBody r)
     \<and> m_classification r = n
     \<and> (\<forall>e. predict_proba m \<lparr>r_suhu = suhu, r_ph = ph, r_do = do, r_tds = tds\<rparr> = Inl e
          \<longrightarrow> m_confidence r = None)
     \<and> (\<forall>qs. qs \<noteq> [] \<longrightarrow>
          predict_proba m \<lparr>r_suhu = suhu, r_ph = ph, r_do = do, r_tds = tds\<rparr> = Inr (map Fin qs)
          \<longrightarrow> m_confidence r = Some (float_mul B (Fin (Max (set qs))) (Fin 100)))
     \<and> (\<forall>row mx. predict_proba m \<lparr>r_suhu = suhu, r_ph = ph, r_do = do, r_tds = tds\<rparr> = Inr row
          \<longrightarrow> py_max row = Inr mx \<longrightarrow> m_confidence r = Some (float_mul B mx (Fin 100)))"
proof -
  let ?df = "\<lparr>r_suhu = suhu, r_ph = ph, r_do = do, r_tds = tds\<rparr>"
  have raises: "get_confidence B m ?df = None" if "predict_proba m ?df = Inl e" for e
    using that by (simp add: get_confidence_cases)
  have returns: "get_confidence B m ?df = Some (float_mul B mx (Fin 100))"
    if "predict_proba m ?df = Inr row" and "py_max row = Inr mx" for row mx
    using that by (simp add: get_confidence_cases)
  have finite: "get_confidence B m ?df = Some (float_mul B (Fin (Max (set qs))) (Fin 100))"
    if "qs \<noteq> []" and "predict_proba m ?df = Inr (map Fin qs)" for qs
    using that by (simp add: get_confidence_cases py_max_Fin)
  show ?thesis
    unfolding classify_model_path [OF assms]
    using raises returns finite by auto
qed

theorem confidence_from_probabilities_witness:
  "read_input stub_builtins (Inr example_request) = Inr (Inr (Fin 7, Fin 200, Fin 24, Fin 5))
   \<and> (\<exists>r. classify stub_builtins
          (Some (const_model (Inr (PStr ''Tidak layak'')) (Inr [Fin (1 / 4), Fin (3 / 4)])))
          (Inr example_request) = Response 200 (ModelBody r)
        \<and> m_classification r = 2 \<and> m_confidence r = Some (Fin 75))
   \<and> (\<exists>r. classify stub_builtins
          (Some (const_model (Inr (PInt 1)) (Inl NonException)))
          (Inr example_request) = Response 200 (ModelBody r)
        \<and> m_classification r = 1 \<and> m_confidence r = None)"
proof -
  note h = read_example_request
  let ?df = "\<lparr>r_suhu = Fin 24, r_ph = Fin 7, r_do = Fin 5, r_tds = Fin 200\<rparr>"
  let ?m1 = "const_model (Inr (PStr ''Tidak layak'')) (Inr [Fin (1 / 4), Fin (3 / 4)])"
  let ?m2 = "const_model (Inr (PInt 1)) (Inl NonException)"
  have p1: "predict ?m1 ?df = Inr (PStr ''Tidak layak'')"
    and q1: "predict_proba ?m1 ?df = Inr (map Fin [1 / 4, 3 / 4])"
    and p2: "predict ?m2 ?df = Inr (PInt 1)"
    and q2: "predict_proba ?m2 ?df = Inl NonException"
    by (simp_all add: const_model_def)
  have n1: "prediction_int_of (PStr ''Tidak layak'') = Inr 2"
    by (simp add: label_map_get strip_def py_isspace_def)
  have n2: "prediction_int_of (PInt 1) = Inr 1"
    by simp
  from confidence_from_probabilities [OF h p1 n1]
  obtain r1 where r1: "classify stub_builtins (Some ?m1) (Inr example_request) = Response 200 (ModelBody r1)"
    and c1: "m_classification r1 = 2"
    and f1: "\<forall>qs. qs \<noteq> [] \<longrightarrow> predict_proba ?m1 ?df = Inr (map Fin qs)
        \<longrightarrow> m_confidence r1 = Some (float_mul stub_builtins (Fin (Max (set qs))) (Fin 100))"
    by blast
  from f1 q1 have "m_confidence r1 = Some (float_mul stub_builtins (Fin (Max (set [1 / 4, 3 / 4]))) (Fin 100))"
    by blast
  then have v1: "m_confidence r1 = Some (Fin 75)"
    by (simp add: stub_builtins_def)
  from confidence_from_probabilities [OF h p2 n2]
  obtain r2 where r2: "classify stub_builtins (Some ?m2) (Inr example_request) = Response 200 (ModelBody r2)"
    and c2: "m_classification r2 = 1"
    and f2: "\<forall>e. predict_proba ?m2 ?df = Inl e \<longrightarrow> m_confidence r2 = None"
    by blast
  from f2 q2 have v2: "m_confidence r2 = None"
    by blast
  from h r1 c1 v1 r2 c2 v2 show ?thesis
    by blast
qed

end
